theory Spec2Isabelle
  imports Main "HOL-Library.Word"
begin

section \<open>Fast Session Transfer in RegularWifiMac\<close>

text \<open>
  This part embeds the Fast Session Transfer (FST) code of
  \<^verbatim>\<open>src/wifi/model/regular-wifi-mac.cc\<close>: \<^verbatim>\<open>MacTxOk\<close>, \<^verbatim>\<open>MacRxOk\<close>,
  \<^verbatim>\<open>SetupFSTSession\<close>, the \<^verbatim>\<open>SendFst...\<close> functions, \<^verbatim>\<open>NotifyBandChanged\<close>,
  \<^verbatim>\<open>TxOk\<close>, \<^verbatim>\<open>ChangeBand\<close> and \<^verbatim>\<open>Receive\<close>, and with the block-ack branch of
  \<^verbatim>\<open>Receive\<close> also \<^verbatim>\<open>SendAddBaResponse\<close>. A MAC object is a record that the
  functions take and return; the simulator's event list is passed beside it.
\<close>

subsection \<open>Addresses, bands, frames\<close>

text \<open>A \<^verbatim>\<open>Mac48Address\<close> is only ever compared for equality; it is the number its six bytes spell.\<close>

type_synonym Mac48Address = nat

text \<open>
  The enumeration \<^verbatim>\<open>BandID\<close> is declared in a header that is not among the files at hand.
  Its three values that \<^verbatim>\<open>ChangeBand\<close> tests are named; \<open>Band_Other n\<close> is any other value
  \<open>n\<close> of the band field.
\<close>

datatype BandID = Band_60GHz | Band_4_9GHz | Band_2_4GHz | Band_Other nat

datatype WifiPhyStandard =
    WIFI_PHY_STANDARD_80211ad
  | WIFI_PHY_STANDARD_80211n_5GHZ
  | WIFI_PHY_STANDARD_80211n_2_4GHZ
  | WIFI_PHY_STANDARD_OTHER nat

record Band =
  Band_ID :: BandID
  Setup :: nat
  Operation :: nat

datatype SessionType = SessionType_InfrastructureBSS | SessionType_OTHER nat

text \<open>
  Machine integers have the width the code gives them: a dialog token is \<^verbatim>\<open>uint8_t\<close>, a
  status code \<^verbatim>\<open>uint16_t\<close> and a session identifier \<^verbatim>\<open>uint32_t\<close> in the signatures of
  \<^verbatim>\<open>SendFstSetupResponse\<close> and \<^verbatim>\<open>SendFstAckRequest\<close>; the attribute \<^verbatim>\<open>LLT\<close> is
  registered with \<^verbatim>\<open>MakeUintegerChecker<uint32_t>\<close>.
\<close>

record SessionTransitionElement =
  NewBand :: Band
  OldBand :: Band
  FstsID :: "32 word"
  SessionControl :: "SessionType \<times> bool"

record ExtFstSetupRequest =
  SessionTransition :: SessionTransitionElement
  Llt :: "32 word"
  MultiBand :: nat
  DialogToken :: "8 word"

text \<open>
  The headers of the ADDBA exchange, as far as the code reads and writes them: of a
  request \<^verbatim>\<open>SendAddBaResponse\<close> reads \<^verbatim>\<open>IsAmsduSupported\<close>, \<^verbatim>\<open>IsImmediateBlockAck\<close>,
  \<^verbatim>\<open>GetTid\<close>, \<^verbatim>\<open>GetTimeout\<close> and \<^verbatim>\<open>GetStartingSequence\<close>; of a response it sets the
  status code (always success), A-MSDU support, immediate or delayed block ack, TID,
  buffer size and timeout. The numbers are copied only and are natural numbers here.
\<close>

record MgtAddBaRequestHeader =
  IsAmsduSupported :: bool
  IsImmediateBlockAck :: bool
  GetTid :: nat
  GetTimeout :: nat
  GetStartingSequence :: nat

record MgtAddBaResponseHeader =
  StatusCodeIsSuccess :: bool
  AmsduSupport :: bool
  ImmediateBlockAck :: bool
  Tid :: nat
  BufferSize :: nat
  Timeout :: nat

text \<open>
  An action frame as \<^verbatim>\<open>Receive\<close> and \<^verbatim>\<open>TxOk\<close> read it: the category and action value
  of its \<^verbatim>\<open>WifiActionHeader\<close> together with the fields of the header that follows.
  \<open>FST_SETUP_RESPONSE token status\<close>, \<open>FST_TEAR_DOWN fstsID\<close>,
  \<open>FST_ACK_REQUEST token fstsID\<close>, \<open>FST_ACK_RESPONSE token fstsID\<close>;
  \<open>BLOCK_ACK_DELBA byOriginator tid\<close>.
\<close>

datatype WifiAction =
    BLOCK_ACK_ADDBA_REQUEST MgtAddBaRequestHeader
  | BLOCK_ACK_ADDBA_RESPONSE MgtAddBaResponseHeader
  | BLOCK_ACK_DELBA bool nat
  | BLOCK_ACK_UNSUPPORTED
  | FST_SETUP_REQUEST ExtFstSetupRequest
  | FST_SETUP_RESPONSE "8 word" "16 word"
  | FST_TEAR_DOWN "32 word"
  | FST_ACK_REQUEST "8 word" "32 word"
  | FST_ACK_RESPONSE "8 word" "32 word"
  | FST_UNSUPPORTED
  | CATEGORY_UNSUPPORTED

datatype FrameBody = WIFI_MAC_MGT_ACTION WifiAction | WIFI_MAC_DATA nat

text \<open>A queued frame: the three addresses of its \<^verbatim>\<open>WifiMacHeader\<close> and its body.\<close>

record WifiMacQueueItem =
  Addr1 :: Mac48Address
  Addr2 :: Mac48Address
  Addr3 :: Mac48Address
  Body :: FrameBody

subsection \<open>The simulator's events\<close>

text \<open>
  Modelled from the spec: the scheduler (\<^verbatim>\<open>Simulator::Schedule\<close>, \<^verbatim>\<open>EventId::Cancel\<close>,
  \<^verbatim>\<open>EventId::IsRunning\<close>) is a collaborator outside the sources. The spec gives it
  as "schedule event E after duration D" and "cancel event handle H", delivering events
  in non-decreasing timestamp order, first in first out among equal timestamps. Every
  event the FST code schedules is a call of \<^verbatim>\<open>ChangeBand\<close> with three bound arguments.
  Time is in microseconds.
\<close>

record ScheduledEvent =
  ev_uid :: nat
  ev_ts :: nat
  ev_peerStation :: Mac48Address
  ev_bandId :: BandID
  ev_isInitiator :: bool

record Simulator =
  Now :: nat
  m_uid :: nat
  m_events :: "ScheduledEvent list"

text \<open>An \<^verbatim>\<open>EventId\<close>: \<open>None\<close> as default-constructed, else the uid of the event it names.\<close>

type_synonym EventId = "nat option"

fun insert_event :: "ScheduledEvent \<Rightarrow> ScheduledEvent list \<Rightarrow> ScheduledEvent list" where
  "insert_event e [] = [e]"
| "insert_event e (x # xs) =
     (if ev_ts x \<le> ev_ts e then x # insert_event e xs else e # x # xs)"

definition Schedule ::
  "nat \<Rightarrow> Mac48Address \<Rightarrow> BandID \<Rightarrow> bool \<Rightarrow> Simulator \<Rightarrow> EventId \<times> Simulator" where
  "Schedule delay peerStation bandId isInitiator sim =
     (let e = \<lparr>ev_uid = m_uid sim, ev_ts = Now sim + delay, ev_peerStation = peerStation,
               ev_bandId = bandId, ev_isInitiator = isInitiator\<rparr>
      in (Some (m_uid sim),
          sim\<lparr>m_uid := m_uid sim + 1, m_events := insert_event e (m_events sim)\<rparr>))"


definition IsRunning :: "EventId \<Rightarrow> Simulator \<Rightarrow> bool" where
  "IsRunning ev sim =
     (case ev of
        None \<Rightarrow> False
      | Some u \<Rightarrow> list_ex (\<lambda>e. ev_uid e = u) (m_events sim))"

subsection \<open>Sessions and the MAC object\<close>

datatype FST_STATES =
    FST_INITIAL_STATE
  | FST_SETUP_COMPLETION_STATE
  | FST_TRANSITION_DONE_STATE
  | FST_TRANSITION_CONFIRMED_STATE

text \<open>
  The declaration of \<^verbatim>\<open>FstSession\<close> (and of the members \<^verbatim>\<open>m_fstId\<close> and \<^verbatim>\<open>m_llt\<close>) is
  in \<^verbatim>\<open>regular-wifi-mac.h\<close>, which is not among the files at hand. Its fields are those
  the code reads and writes, each as wide as the code treats it elsewhere: the session
  identifier is handed on as \<^verbatim>\<open>uint32_t\<close>, and the Link-Loss-Timeout is copied from the
  attribute \<^verbatim>\<open>LLT\<close>, whose checker is that of \<^verbatim>\<open>uint32_t\<close>. The product
  \<^verbatim>\<open>fstSession->LLT * 32\<close> is therefore a 32-bit product, which \<^verbatim>\<open>MicroSeconds\<close> takes
  as an unsigned number of microseconds.
\<close>

record FstSession =
  ID :: "32 word"
  CurrentState :: FST_STATES
  IsInitiator :: bool
  NewBandId :: BandID
  LLT :: "32 word"
  LinkLossCountDownEvent :: EventId

datatype AcIndex = AC_VO | AC_VI | AC_BE | AC_BK

text \<open>
  Modelled from the spec: a block-ack agreement holds the negotiated starting sequence
  number, buffer size, inactivity timeout and immediate or delayed mode. A
  \<^verbatim>\<open>QosTxop\<close> is its queue of pending frames and, per peer, at most one agreement.
\<close>

record Agreement =
  m_startingSeq :: nat
  m_bufferSize :: nat
  m_timeout :: nat
  m_immediateBlockAck :: bool

record QosTxop =
  m_queue :: "WifiMacQueueItem list"
  m_agreements :: "Mac48Address \<rightharpoonup> Agreement"

datatype TypeOfStation = STA | AP | DMG_STA | DMG_AP | STATION_OTHER nat

type_synonym MacState = nat

text \<open>
  Calls that leave the MAC object: the callbacks \<^verbatim>\<open>m_bandChangedCallback\<close> and
  \<^verbatim>\<open>m_txOkCallback\<close>, the calls \<^verbatim>\<open>m_low->CreateBlockAckAgreement\<close> and
  \<^verbatim>\<open>m_low->DestroyBlockAckAgreement\<close>, and the handlers \<^verbatim>\<open>GotAddBaResponse\<close> and
  \<^verbatim>\<open>GotDelBaFrame\<close> of the \<^verbatim>\<open>QosTxop\<close> of an access category, none of which is among
  the sources. They are recorded with their arguments in the order they are made.
\<close>

datatype Call =
    BandChangedCallback WifiPhyStandard Mac48Address bool
  | TxOkCallback WifiMacQueueItem
  | CreateBlockAckAgreement MgtAddBaResponseHeader Mac48Address nat
  | GotAddBaResponse AcIndex MgtAddBaResponseHeader Mac48Address
  | DestroyBlockAckAgreement Mac48Address nat
  | GotDelBaFrame AcIndex nat Mac48Address

text \<open>
  The MAC object. Three of its fields stand for code that the block-ack branch of
  \<^verbatim>\<open>Receive\<close> reads and that is not among the sources; they are parameters of the
  object: \<open>QosUtilsMapTidToAc\<close> is the table of that name from TID to access category,
  \<open>None\<close> where it gives a category for which \<^verbatim>\<open>m_edca\<close> has no queue;
  \<open>HasEdmgSupported\<close> is the answer of \<^verbatim>\<open>m_stationManager->HasEdmgSupported ()\<close>;
  \<open>HeMpduBufferSize\<close> is \<open>None\<close> when \<^verbatim>\<open>GetHeConfiguration ()\<close> is null and otherwise
  the \<^verbatim>\<open>GetMpduBufferSize ()\<close> of the configuration.
\<close>

record RegularWifiMac =
  m_address :: Mac48Address
  m_bssid :: Mac48Address
  m_qosSupported :: bool
  m_type :: TypeOfStation
  m_state :: MacState
  m_fstId :: "32 word"
  m_llt :: "32 word"
  m_multiBand :: nat
  m_fstSessionMap :: "Mac48Address \<rightharpoonup> FstSession"
  m_txop :: "WifiMacQueueItem list"
  m_edca :: "AcIndex \<Rightarrow> QosTxop"
  m_calls :: "Call list"
  QosUtilsMapTidToAc :: "nat \<Rightarrow> AcIndex option"
  HasEdmgSupported :: bool
  HeMpduBufferSize :: "nat option"

text \<open>
  \<^verbatim>\<open>m_fstSessionMap[a]\<close>: \<^verbatim>\<open>std::map::operator[]\<close> inserts a value-initialised session
  when the key is absent (every scalar field zero, the event handle default-constructed)
  and returns the entry. Zero as a band is none of the three bands \<^verbatim>\<open>ChangeBand\<close> names.
\<close>

definition FstSession_zero :: FstSession where
  "FstSession_zero =
     \<lparr>ID = 0, CurrentState = FST_INITIAL_STATE, IsInitiator = False,
      NewBandId = Band_Other 0, LLT = 0, LinkLossCountDownEvent = None\<rparr>"

definition session_at :: "(Mac48Address \<rightharpoonup> FstSession) \<Rightarrow> Mac48Address \<Rightarrow> FstSession" where
  "session_at m a = (case m a of None \<Rightarrow> FstSession_zero | Some s \<Rightarrow> s)"

text \<open>
  \<^verbatim>\<open>m_txop->Queue (packet, hdr)\<close>. Modelled from the spec: enqueueing appends the frame
  to the queue (\<^verbatim>\<open>Txop\<close> is not among the sources).
\<close>

definition Txop_Queue :: "WifiMacQueueItem \<Rightarrow> RegularWifiMac \<Rightarrow> RegularWifiMac" where
  "Txop_Queue item mac = mac\<lparr>m_txop := m_txop mac @ [item]\<rparr>"

definition action_frame :: "Mac48Address \<Rightarrow> WifiAction \<Rightarrow> RegularWifiMac \<Rightarrow> WifiMacQueueItem" where
  "action_frame to action mac =
     \<lparr>Addr1 = to, Addr2 = m_address mac, Addr3 = m_address mac,
      Body = WIFI_MAC_MGT_ACTION action\<rparr>"

subsection \<open>The FST functions\<close>

definition ChangeBand ::
  "Mac48Address \<Rightarrow> BandID \<Rightarrow> bool \<Rightarrow> RegularWifiMac \<Rightarrow> RegularWifiMac" where
  "ChangeBand peerStation bandId isInitiator mac =
     (if bandId = Band_60GHz then
        mac\<lparr>m_calls := m_calls mac @
          [BandChangedCallback WIFI_PHY_STANDARD_80211ad peerStation isInitiator]\<rparr>
      else if bandId = Band_4_9GHz then
        mac\<lparr>m_calls := m_calls mac @
          [BandChangedCallback WIFI_PHY_STANDARD_80211n_5GHZ peerStation isInitiator]\<rparr>
      else if bandId = Band_2_4GHz then
        mac\<lparr>m_calls := m_calls mac @
          [BandChangedCallback WIFI_PHY_STANDARD_80211n_2_4GHZ peerStation isInitiator]\<rparr>
      else mac)"



definition SetupFSTSession :: "Mac48Address \<Rightarrow> RegularWifiMac \<Rightarrow> RegularWifiMac" where
  "SetupFSTSession staAddress mac =
     (let fstId = m_fstId mac + 1;
          newBand = \<lparr>Band_ID = Band_4_9GHz, Setup = 1, Operation = 1\<rparr>;
          oldBand = \<lparr>Band_ID = Band_60GHz, Setup = 1, Operation = 1\<rparr>;
          sessionTransition =
            \<lparr>NewBand = newBand, OldBand = oldBand, FstsID = fstId,
             SessionControl = (SessionType_InfrastructureBSS, False)\<rparr>;
          requestHdr =
            \<lparr>SessionTransition = sessionTransition, Llt = m_llt mac,
             MultiBand = m_multiBand mac, DialogToken = 10\<rparr>;
          fstSession =
            \<lparr>ID = fstId, CurrentState = FST_INITIAL_STATE, IsInitiator = True,
             NewBandId = Band_4_9GHz, LLT = m_llt mac, LinkLossCountDownEvent = None\<rparr>;
          mac1 = mac\<lparr>m_fstId := fstId,
                     m_fstSessionMap := (m_fstSessionMap mac)(staAddress \<mapsto> fstSession)\<rparr>
      in Txop_Queue (action_frame staAddress (FST_SETUP_REQUEST requestHdr) mac1) mac1)"

definition SendFstSetupResponse ::
  "Mac48Address \<Rightarrow> 8 word \<Rightarrow> 16 word \<Rightarrow> SessionTransitionElement \<Rightarrow>
   RegularWifiMac \<Rightarrow> RegularWifiMac" where
  "SendFstSetupResponse to token status sessionTransition mac =
     Txop_Queue (action_frame to (FST_SETUP_RESPONSE token status) mac) mac"

definition SendFstAckRequest ::
  "Mac48Address \<Rightarrow> 8 word \<Rightarrow> 32 word \<Rightarrow> RegularWifiMac \<Rightarrow> RegularWifiMac" where
  "SendFstAckRequest to dialog fstsID mac =
     Txop_Queue (action_frame to (FST_ACK_REQUEST dialog fstsID) mac) mac"

definition SendFstAckResponse ::
  "Mac48Address \<Rightarrow> 8 word \<Rightarrow> 32 word \<Rightarrow> RegularWifiMac \<Rightarrow> RegularWifiMac" where
  "SendFstAckResponse to dialog fstsID mac =
     Txop_Queue (action_frame to (FST_ACK_RESPONSE dialog fstsID) mac) mac"

definition SendFstTearDownFrame :: "Mac48Address \<Rightarrow> RegularWifiMac \<Rightarrow> RegularWifiMac" where
  "SendFstTearDownFrame to mac =
     Txop_Queue (action_frame to (FST_TEAR_DOWN 0) mac) mac"

definition NotifyBandChanged ::
  "WifiPhyStandard \<Rightarrow> Mac48Address \<Rightarrow> bool \<Rightarrow> RegularWifiMac \<Rightarrow> RegularWifiMac" where
  "NotifyBandChanged standard address isInitiator mac =
     (if isInitiator then
        (let fstSession = session_at (m_fstSessionMap mac) address;
             mac1 = mac\<lparr>m_fstSessionMap := (m_fstSessionMap mac)(address \<mapsto> fstSession)\<rparr>
         in SendFstAckRequest address 0 (ID fstSession) mac1)
      else mac)"


text \<open>
  \<^verbatim>\<open>NS_ASSERT\<close> and \<^verbatim>\<open>NS_FATAL_ERROR\<close> end the program, and so does calling through
  a null \<^verbatim>\<open>Ptr\<close>; they are the error results below.
\<close>

datatype error = NS_ASSERT_failed | NS_FATAL_ERROR string | NullPointerDereference

text \<open>
  \<^verbatim>\<open>SendAddBaResponse\<close> accepts every ADDBA request: it builds the response, tells
  \<^verbatim>\<open>m_low\<close> to create the agreement and pushes the response frame to the head of the
  queue of the access category of the request's TID
  (\<^verbatim>\<open>m_edca[QosUtilsMapTidToAc (reqHdr->GetTid ())]->PushFront (packet, hdr)\<close>).
  \<^verbatim>\<open>QosTxop::PushFront\<close> is not among the sources; the code's comment says that the frame
  is pushed to the head of the queue. The third address of the frame is the BSSID.
\<close>

definition SendAddBaResponse ::
  "MgtAddBaRequestHeader \<Rightarrow> Mac48Address \<Rightarrow> RegularWifiMac \<Rightarrow> error + RegularWifiMac" where
  "SendAddBaResponse reqHdr originator mac =
     (let respHdr =
            \<lparr>StatusCodeIsSuccess = True,
             AmsduSupport = IsAmsduSupported reqHdr,
             ImmediateBlockAck = IsImmediateBlockAck reqHdr,
             Tid = GetTid reqHdr,
             BufferSize =
               (if HasEdmgSupported mac then 1023
                else (case HeMpduBufferSize mac of
                        None \<Rightarrow> 63
                      | Some mpduBufferSize \<Rightarrow> if mpduBufferSize > 64 then 255 else 63)),
             Timeout = GetTimeout reqHdr\<rparr>;
          item = \<lparr>Addr1 = originator, Addr2 = m_address mac, Addr3 = m_bssid mac,
                  Body = WIFI_MAC_MGT_ACTION (BLOCK_ACK_ADDBA_RESPONSE respHdr)\<rparr>;
          mac1 = mac\<lparr>m_calls := m_calls mac @
                   [CreateBlockAckAgreement respHdr originator (GetStartingSequence reqHdr)]\<rparr>
      in case QosUtilsMapTidToAc mac (GetTid reqHdr) of
           None \<Rightarrow> Inl NullPointerDereference
         | Some ac \<Rightarrow>
             Inr (mac1\<lparr>m_edca := (m_edca mac1)
                    (ac := (m_edca mac1 ac)\<lparr>m_queue := item # m_queue (m_edca mac1 ac)\<rparr>)\<rparr>))"

definition Receive ::
  "WifiMacQueueItem \<Rightarrow> RegularWifiMac \<Rightarrow> Simulator \<Rightarrow> error + RegularWifiMac \<times> Simulator" where
  "Receive mpdu mac sim =
     (let to = Addr1 mpdu; from = Addr2 mpdu in
      if to \<noteq> m_address mac then Inr (mac, sim)
      else
        case Body mpdu of
          WIFI_MAC_MGT_ACTION action \<Rightarrow>
            if \<not> m_qosSupported mac then Inl NS_ASSERT_failed
            else
              (case action of
                 BLOCK_ACK_ADDBA_REQUEST reqHdr \<Rightarrow>
                   (case SendAddBaResponse reqHdr from mac of
                      Inl e \<Rightarrow> Inl e
                    | Inr mac1 \<Rightarrow> Inr (mac1, sim))
               | BLOCK_ACK_ADDBA_RESPONSE respHdr \<Rightarrow>
                   (case QosUtilsMapTidToAc mac (Tid respHdr) of
                      None \<Rightarrow> Inl NullPointerDereference
                    | Some ac \<Rightarrow>
                        Inr (mac\<lparr>m_calls := m_calls mac @ [GotAddBaResponse ac respHdr from]\<rparr>,
                             sim))
               | BLOCK_ACK_DELBA byOriginator tid \<Rightarrow>
                   (if byOriginator then
                      Inr (mac\<lparr>m_calls := m_calls mac @ [DestroyBlockAckAgreement from tid]\<rparr>, sim)
                    else
                      (case QosUtilsMapTidToAc mac tid of
                         None \<Rightarrow> Inl NullPointerDereference
                       | Some ac \<Rightarrow>
                           Inr (mac\<lparr>m_calls := m_calls mac @ [GotDelBaFrame ac tid from]\<rparr>,
                                sim)))
               | BLOCK_ACK_UNSUPPORTED \<Rightarrow>
                   Inl (NS_FATAL_ERROR ''Unsupported Action field in Block Ack Action frame'')
               | FST_SETUP_REQUEST requestHdr \<Rightarrow>
                   (let fstSession =
                          \<lparr>ID = FstsID (SessionTransition requestHdr),
                           CurrentState = FST_INITIAL_STATE,
                           IsInitiator = False,
                           NewBandId = Band_ID (NewBand (SessionTransition requestHdr)),
                           LLT = Llt requestHdr,
                           LinkLossCountDownEvent = None\<rparr>;
                        mac1 = mac\<lparr>m_fstSessionMap := (m_fstSessionMap mac)(from \<mapsto> fstSession)\<rparr>
                    in Inr (SendFstSetupResponse from (DialogToken requestHdr) 0
                              (SessionTransition requestHdr) mac1, sim))
               | FST_SETUP_RESPONSE token status \<Rightarrow>
                   (if status = 0 then
                      (let fstSession = (session_at (m_fstSessionMap mac) from)
                                          \<lparr>CurrentState := FST_SETUP_COMPLETION_STATE\<rparr>
                       in if LLT fstSession = 0 then
                            (let fstSession1 =
                                   fstSession\<lparr>CurrentState := FST_TRANSITION_DONE_STATE\<rparr>;
                                 mac1 = mac\<lparr>m_fstSessionMap :=
                                             (m_fstSessionMap mac)(from \<mapsto> fstSession1)\<rparr>
                             in Inr (ChangeBand from (NewBandId fstSession1) True mac1, sim))
                          else
                            (let (ev, sim1) = Schedule (unat (LLT fstSession * 32)) from
                                                (NewBandId fstSession) True sim
                             in Inr (mac\<lparr>m_fstSessionMap := (m_fstSessionMap mac)
                                       (from \<mapsto> fstSession\<lparr>LinkLossCountDownEvent := ev\<rparr>)\<rparr>,
                                     sim1)))
                    else Inr (mac, sim))
               | FST_TEAR_DOWN fstsID \<Rightarrow>
                   (let fstSession = (session_at (m_fstSessionMap mac) from)
                                       \<lparr>CurrentState := FST_INITIAL_STATE\<rparr>
                    in Inr (mac\<lparr>m_fstSessionMap := (m_fstSessionMap mac)(from \<mapsto> fstSession)\<rparr>,
                            sim))
               | FST_ACK_REQUEST token fstsID \<Rightarrow>
                   Inr (SendFstAckResponse from token fstsID mac, sim)
               | FST_ACK_RESPONSE token fstsID \<Rightarrow>
                   (let fstSession = (session_at (m_fstSessionMap mac) from)
                                       \<lparr>CurrentState := FST_TRANSITION_CONFIRMED_STATE\<rparr>
                    in Inr (mac\<lparr>m_fstSessionMap := (m_fstSessionMap mac)(from \<mapsto> fstSession)\<rparr>,
                            sim))
               | FST_UNSUPPORTED \<Rightarrow>
                   Inl (NS_FATAL_ERROR ''Unsupported Action field in Block Ack Action frame'')
               | CATEGORY_UNSUPPORTED \<Rightarrow>
                   Inl (NS_FATAL_ERROR ''Unsupported Action frame received''))
        | WIFI_MAC_DATA payload \<Rightarrow>
            Inl (NS_FATAL_ERROR ''Don't know how to handle frame''))"

text \<open>
  The simulator runs the earliest pending event: the clock moves to its timestamp and
  the bound \<^verbatim>\<open>ChangeBand\<close> call is made. \<open>None\<close> when no event is pending.
\<close>

definition ProcessOneEvent ::
  "RegularWifiMac \<Rightarrow> Simulator \<Rightarrow> (RegularWifiMac \<times> Simulator) option" where
  "ProcessOneEvent mac sim =
     (case m_events sim of
        [] \<Rightarrow> None
      | e # es \<Rightarrow>
          Some (ChangeBand (ev_peerStation e) (ev_bandId e) (ev_isInitiator e) mac,
                sim\<lparr>Now := ev_ts e, m_events := es\<rparr>))"


section \<open>Band switch in MultiBandNetDevice\<close>

text \<open>
  This part embeds \<^verbatim>\<open>AddNewWifiTechnology\<close>, \<^verbatim>\<open>SwitchTechnology\<close>, \<^verbatim>\<open>BandChanged\<close>
  and \<^verbatim>\<open>EstablishFastSessionTransferSession\<close> of the multi-band net device
  (\<^verbatim>\<open>src/unnamed/part_001\<close>). The device holds pointers to MAC objects and station
  managers, and \<^verbatim>\<open>BandChanged\<close> works on two of them that may be the same object, so
  the objects live in a store indexed by pointer value and a \<^verbatim>\<open>Ptr\<close> is \<open>None\<close>
  (null) or \<open>Some p\<close>.
\<close>

text \<open>
  Modelled from the spec: the station manager (\<^verbatim>\<open>WifiRemoteStationManager\<close>) is not among
  the sources. Of its station-tracking table the band switch uses one operation,
  \<^verbatim>\<open>RecordGotAssocTxOk\<close>, which marks the peer as successfully associated.
\<close>

record WifiRemoteStationManager =
  m_associated :: "Mac48Address \<Rightarrow> bool"

definition RecordGotAssocTxOk ::
  "Mac48Address \<Rightarrow> WifiRemoteStationManager \<Rightarrow> WifiRemoteStationManager" where
  "RecordGotAssocTxOk address sm = sm\<lparr>m_associated := (m_associated sm)(address := True)\<rparr>"

record WifiTechnology =
  Phy :: "nat option"
  Mac :: "nat option"
  StationManager :: "nat option"
  Standard :: WifiPhyStandard
  Operational :: bool

text \<open>The value-initialised bundle that \<^verbatim>\<open>m_list[standard]\<close> inserts for an absent key.\<close>

definition WifiTechnology_zero :: WifiTechnology where
  "WifiTechnology_zero =
     \<lparr>Phy = None, Mac = None, StationManager = None,
      Standard = WIFI_PHY_STANDARD_OTHER 0, Operational = False\<rparr>"

text \<open>A queue of a MAC object: that of \<^verbatim>\<open>GetTxop ()\<close> or that of one of the four \<^verbatim>\<open>QosTxop\<close>s.\<close>

datatype QueueId = TxopQueue | EdcaQueue AcIndex

text \<open>
  The calls the band switch makes on queues, kept in call order: the spec wants the
  order across access categories to be deterministic and testable.
\<close>

datatype QueueCall =
    TransferPacketsByAddress_call Mac48Address "nat \<times> QueueId" "nat \<times> QueueId"
  | CopyBlockAckAgreements_call Mac48Address "nat \<times> AcIndex" "nat \<times> AcIndex"

text \<open>
  The device: the members of \<^verbatim>\<open>MultiBandNetDevice\<close>, the two stores of objects, the
  record of queue calls, and one parameter. \<^verbatim>\<open>WifiMacQueue::TransferPacketsByAddress\<close> is
  not among the sources, and the spec describes it for a source and a target queue; what
  it leaves in a queue that is transferred onto itself is said nowhere. It is the
  parameter \<open>transfer_onto_itself\<close>: the address and the queue before give the queue after.
  The model leaves it open.
\<close>

record MultiBandNetDevice =
  m_list :: "WifiPhyStandard \<rightharpoonup> WifiTechnology"
  m_mac :: "nat option"
  m_phy :: "nat option"
  m_stationManager :: "nat option"
  m_standard :: WifiPhyStandard
  mac_objects :: "nat \<Rightarrow> RegularWifiMac"
  manager_objects :: "nat \<Rightarrow> WifiRemoteStationManager"
  m_queueCalls :: "QueueCall list"
  transfer_onto_itself :: "Mac48Address \<Rightarrow> WifiMacQueueItem list \<Rightarrow> WifiMacQueueItem list"

definition GetWifiMacQueue :: "QueueId \<Rightarrow> RegularWifiMac \<Rightarrow> WifiMacQueueItem list" where
  "GetWifiMacQueue q mac =
     (case q of TxopQueue \<Rightarrow> m_txop mac | EdcaQueue ac \<Rightarrow> m_queue (m_edca mac ac))"

definition SetWifiMacQueue ::
  "QueueId \<Rightarrow> WifiMacQueueItem list \<Rightarrow> RegularWifiMac \<Rightarrow> RegularWifiMac" where
  "SetWifiMacQueue q items mac =
     (case q of
        TxopQueue \<Rightarrow> mac\<lparr>m_txop := items\<rparr>
      | EdcaQueue ac \<Rightarrow> mac\<lparr>m_edca := (m_edca mac)(ac := (m_edca mac ac)\<lparr>m_queue := items\<rparr>)\<rparr>)"

definition queue_of :: "MultiBandNetDevice \<Rightarrow> nat \<times> QueueId \<Rightarrow> WifiMacQueueItem list" where
  "queue_of d r = GetWifiMacQueue (snd r) (mac_objects d (fst r))"

definition agreements_of ::
  "MultiBandNetDevice \<Rightarrow> nat \<times> AcIndex \<Rightarrow> (Mac48Address \<rightharpoonup> Agreement)" where
  "agreements_of d r = m_agreements (m_edca (mac_objects d (fst r)) (snd r))"

definition update_mac ::
  "nat \<Rightarrow> (RegularWifiMac \<Rightarrow> RegularWifiMac) \<Rightarrow> MultiBandNetDevice \<Rightarrow> MultiBandNetDevice" where
  "update_mac p f d = d\<lparr>mac_objects := (mac_objects d)(p := f (mac_objects d p))\<rparr>"

text \<open>
  Modelled from the spec: \<^verbatim>\<open>WifiMacQueue::TransferPacketsByAddress\<close> is not among the
  sources. The spec's \<^verbatim>\<open>TransferByDestination\<close> removes, in original order, every queued
  frame addressed to the destination from this queue and appends it, in the same relative
  order, to the target queue; frames for other destinations keep their position. That is
  the case of two queues. When source and target are the same queue of the same MAC
  object, the queue becomes what the device's parameter gives. The call is assumed to
  return in either case.
\<close>

definition TransferPacketsByAddress ::
  "Mac48Address \<Rightarrow> nat \<times> QueueId \<Rightarrow> nat \<times> QueueId \<Rightarrow> MultiBandNetDevice \<Rightarrow> MultiBandNetDevice" where
  "TransferPacketsByAddress addr src dst d =
     (let d2 =
            (if src = dst then
               update_mac (fst src)
                 (SetWifiMacQueue (snd src) (transfer_onto_itself d addr (queue_of d src))) d
             else
               update_mac (fst dst)
                 (SetWifiMacQueue (snd dst)
                    (queue_of d dst @ filter (\<lambda>i. Addr1 i = addr) (queue_of d src)))
                 (update_mac (fst src)
                    (SetWifiMacQueue (snd src)
                       (filter (\<lambda>i. Addr1 i \<noteq> addr) (queue_of d src))) d))
      in d2\<lparr>m_queueCalls := m_queueCalls d2 @ [TransferPacketsByAddress_call addr src dst]\<rparr>)"

text \<open>
  Modelled from the spec: \<^verbatim>\<open>QosTxop::CopyBlockAckAgreements\<close> is not among the sources.
  The spec's \<^verbatim>\<open>CopyAgreement\<close>: if an agreement exists for the destination, an equal one
  is installed on the target queue, replacing any prior agreement for that destination
  there; the source agreement is not removed.
\<close>

definition CopyBlockAckAgreements ::
  "Mac48Address \<Rightarrow> nat \<times> AcIndex \<Rightarrow> nat \<times> AcIndex \<Rightarrow> MultiBandNetDevice \<Rightarrow> MultiBandNetDevice" where
  "CopyBlockAckAgreements addr src dst d =
     (let d1 =
            (case agreements_of d src addr of
               None \<Rightarrow> d
             | Some a \<Rightarrow>
                 update_mac (fst dst)
                   (\<lambda>mac. mac\<lparr>m_edca := (m_edca mac)
                      (snd dst := (m_edca mac (snd dst))
                         \<lparr>m_agreements := (m_agreements (m_edca mac (snd dst)))(addr \<mapsto> a)\<rparr>)\<rparr>)
                   d)
      in d1\<lparr>m_queueCalls := m_queueCalls d1 @ [CopyBlockAckAgreements_call addr src dst]\<rparr>)"

definition AddNewWifiTechnology ::
  "nat option \<Rightarrow> nat option \<Rightarrow> nat option \<Rightarrow> WifiPhyStandard \<Rightarrow> bool \<Rightarrow>
   MultiBandNetDevice \<Rightarrow> MultiBandNetDevice" where
  "AddNewWifiTechnology phy mac station standard operational d =
     d\<lparr>m_list := (m_list d)(standard \<mapsto>
         \<lparr>Phy = phy, Mac = mac, StationManager = station,
          Standard = standard, Operational = operational\<rparr>)\<rparr>"

definition SwitchTechnology :: "WifiPhyStandard \<Rightarrow> MultiBandNetDevice \<Rightarrow> MultiBandNetDevice" where
  "SwitchTechnology standard d =
     (let technology = (case m_list d standard of None \<Rightarrow> WifiTechnology_zero | Some t \<Rightarrow> t)
      in d\<lparr>m_list := (m_list d)(standard \<mapsto> technology),
           m_mac := Mac technology,
           m_phy := Phy technology,
           m_stationManager := StationManager technology,
           m_standard := standard\<rparr>)"

text \<open>
  \<^verbatim>\<open>SetBssid\<close> and \<^verbatim>\<open>GetBssid\<close> are in the sources; \<^verbatim>\<open>SetState\<close> of the two station
  classes is not. Modelled from the spec: it copies the association state.
\<close>

definition SetBssid :: "Mac48Address \<Rightarrow> RegularWifiMac \<Rightarrow> RegularWifiMac" where
  "SetBssid bssid mac = mac\<lparr>m_bssid := bssid\<rparr>"

definition SetState :: "MacState \<Rightarrow> RegularWifiMac \<Rightarrow> RegularWifiMac" where
  "SetState st mac = mac\<lparr>m_state := st\<rparr>"

definition BandChanged ::
  "WifiPhyStandard \<Rightarrow> Mac48Address \<Rightarrow> bool \<Rightarrow> MultiBandNetDevice \<Rightarrow> error + MultiBandNetDevice" where
  "BandChanged standard address isInitiator d =
     (let oldMac = m_mac d;
          d0 = SwitchTechnology standard d;
          newMac = m_mac d0
      in case oldMac of
           None \<Rightarrow> Inl NullPointerDereference
         | Some old \<Rightarrow>
            (case newMac of
               None \<Rightarrow> Inl NullPointerDereference
             | Some new \<Rightarrow>
                (let d1 = TransferPacketsByAddress address (old, TxopQueue) (new, TxopQueue) d0;
                     d2 = TransferPacketsByAddress address
                            (old, EdcaQueue AC_VO) (new, EdcaQueue AC_VO) d1;
                     d3 = TransferPacketsByAddress address
                            (old, EdcaQueue AC_VI) (new, EdcaQueue AC_VI) d2;
                     d4 = TransferPacketsByAddress address
                            (old, EdcaQueue AC_BE) (new, EdcaQueue AC_BE) d3;
                     d5 = TransferPacketsByAddress address
                            (old, EdcaQueue AC_BK) (new, EdcaQueue AC_BK) d4;
                     d6 = CopyBlockAckAgreements address (old, AC_VO) (new, AC_VO) d5;
                     d7 = CopyBlockAckAgreements address (old, AC_VI) (new, AC_VI) d6;
                     d8 = CopyBlockAckAgreements address (old, AC_BE) (new, AC_BE) d7;
                     d9 = CopyBlockAckAgreements address (old, AC_BK) (new, AC_BK) d8;
                     ty = m_type (mac_objects d9 new);
                     notify = update_mac new (NotifyBandChanged standard address isInitiator)
                 in if ty = DMG_STA then
                      Inr (notify (update_mac new
                             (\<lambda>mac. SetState (m_state (mac_objects d9 old))
                                      (SetBssid (m_bssid (mac_objects d9 old)) mac)) d9))
                    else if ty = STA then
                      Inr (notify (update_mac new
                             (\<lambda>mac. SetState (m_state (mac_objects d9 old))
                                      (SetBssid (m_bssid (mac_objects d9 old)) mac)) d9))
                    else if ty = AP \<or> ty = DMG_AP then
                      (case m_stationManager d9 of
                         None \<Rightarrow> Inl NullPointerDereference
                       | Some sm \<Rightarrow>
                           Inr (notify (d9\<lparr>manager_objects := (manager_objects d9)
                                  (sm := RecordGotAssocTxOk address (manager_objects d9 sm))\<rparr>)))
                    else Inr (notify d9))))"

text \<open>
  The nine queue calls of \<^verbatim>\<open>BandChanged\<close> on their own, in its order; the lemmas about
  the band switch are stated with it.
\<close>

definition migrate_queues ::
  "Mac48Address \<Rightarrow> nat \<Rightarrow> nat \<Rightarrow> MultiBandNetDevice \<Rightarrow> MultiBandNetDevice" where
  "migrate_queues address old new d0 =
     CopyBlockAckAgreements address (old, AC_BK) (new, AC_BK)
       (CopyBlockAckAgreements address (old, AC_BE) (new, AC_BE)
         (CopyBlockAckAgreements address (old, AC_VI) (new, AC_VI)
           (CopyBlockAckAgreements address (old, AC_VO) (new, AC_VO)
             (TransferPacketsByAddress address (old, EdcaQueue AC_BK) (new, EdcaQueue AC_BK)
               (TransferPacketsByAddress address (old, EdcaQueue AC_BE) (new, EdcaQueue AC_BE)
                 (TransferPacketsByAddress address (old, EdcaQueue AC_VI) (new, EdcaQueue AC_VI)
                   (TransferPacketsByAddress address (old, EdcaQueue AC_VO) (new, EdcaQueue AC_VO)
                     (TransferPacketsByAddress address (old, TxopQueue) (new, TxopQueue)
                        d0))))))))"

definition EstablishFastSessionTransferSession ::
  "Mac48Address \<Rightarrow> MultiBandNetDevice \<Rightarrow> error + MultiBandNetDevice" where
  "EstablishFastSessionTransferSession address d =
     (case m_mac d of
        None \<Rightarrow> Inl NullPointerDereference
      | Some p \<Rightarrow> Inr (update_mac p (SetupFSTSession address) d))"

section \<open>Notions and examples used in the statements\<close>


text \<open>
  A table from TID to access category, that of IEEE 802.11: TIDs 1 and 2 are background,
  0 and 3 best effort, 4 and 5 video, 6 and 7 voice.
\<close>

definition tid_table :: "nat \<Rightarrow> AcIndex option" where
  "tid_table tid =
     (if tid = 1 \<or> tid = 2 then Some AC_BK
      else if tid = 0 \<or> tid = 3 then Some AC_BE
      else if tid = 4 \<or> tid = 5 then Some AC_VI
      else if tid = 6 \<or> tid = 7 then Some AC_VO
      else None)"

text \<open>
  A QoS station with address 1 and \<^verbatim>\<open>LLT\<close> attribute 5, before any FST traffic, and the
  simulator at time 0 with nothing scheduled.
\<close>

definition station1 :: RegularWifiMac where
  "station1 =
     \<lparr>m_address = 1, m_bssid = 3, m_qosSupported = True, m_type = DMG_STA, m_state = 0,
      m_fstId = 0, m_llt = 5, m_multiBand = 0, m_fstSessionMap = Map.empty, m_txop = [],
      m_edca = (\<lambda>ac. \<lparr>m_queue = [], m_agreements = Map.empty\<rparr>), m_calls = [],
      QosUtilsMapTidToAc = tid_table, HasEdmgSupported = False, HeMpduBufferSize = None\<rparr>"

definition sim_start :: Simulator where
  "sim_start = \<lparr>Now = 0, m_uid = 0, m_events = []\<rparr>"

text \<open>A frame from \<open>peer\<close> addressed to station 1.\<close>

definition frame_from :: "Mac48Address \<Rightarrow> WifiAction \<Rightarrow> WifiMacQueueItem" where
  "frame_from peer action =
     \<lparr>Addr1 = 1, Addr2 = peer, Addr3 = peer, Body = WIFI_MAC_MGT_ACTION action\<rparr>"

text \<open>
  Station 1 after it initiated a session with peer 2 and received the peer's
  Setup-Response with status 0: the session waits in \<^verbatim>\<open>FST_SETUP_COMPLETION_STATE\<close> and its
  countdown is pending for time 160.
\<close>

definition session_initial :: FstSession where
  "session_initial =
     \<lparr>ID = 1, CurrentState = FST_INITIAL_STATE, IsInitiator = True,
      NewBandId = Band_4_9GHz, LLT = 5, LinkLossCountDownEvent = None\<rparr>"

definition session_armed :: FstSession where
  "session_armed =
     \<lparr>ID = 1, CurrentState = FST_SETUP_COMPLETION_STATE, IsInitiator = True,
      NewBandId = Band_4_9GHz, LLT = 5, LinkLossCountDownEvent = Some 0\<rparr>"

definition timer_event :: "nat \<Rightarrow> nat \<Rightarrow> ScheduledEvent" where
  "timer_event u t =
     \<lparr>ev_uid = u, ev_ts = t, ev_peerStation = 2, ev_bandId = Band_4_9GHz,
      ev_isInitiator = True\<rparr>"

definition sim_armed :: Simulator where
  "sim_armed = \<lparr>Now = 0, m_uid = 1, m_events = [timer_event 0 160]\<rparr>"

definition station_armed :: RegularWifiMac where
  "station_armed =
     (SetupFSTSession 2 station1)\<lparr>m_fstSessionMap := [2 \<mapsto> session_armed]\<rparr>"


text \<open>
  A device with a 60 GHz and a 5 GHz technology, the 60 GHz one active. Three frames wait
  in the voice queue of the 60 GHz MAC, two of them for peer 2, with which that queue has
  a block-ack agreement; one frame for peer 3 waits in the voice queue of the 5 GHz MAC.
  In the two example devices a queue transferred onto itself is left as it was.
\<close>

definition data_frame :: "Mac48Address \<Rightarrow> nat \<Rightarrow> WifiMacQueueItem" where
  "data_frame to payload = \<lparr>Addr1 = to, Addr2 = 1, Addr3 = 3, Body = WIFI_MAC_DATA payload\<rparr>"

definition agreement2 :: Agreement where
  "agreement2 =
     \<lparr>m_startingSeq = 100, m_bufferSize = 64, m_timeout = 0, m_immediateBlockAck = True\<rparr>"

definition mac_60GHz :: RegularWifiMac where
  "mac_60GHz = station1\<lparr>m_edca := (\<lambda>ac.
       if ac = AC_VO
       then \<lparr>m_queue = [data_frame 2 10, data_frame 3 11, data_frame 2 12],
             m_agreements = [2 \<mapsto> agreement2]\<rparr>
       else \<lparr>m_queue = [], m_agreements = Map.empty\<rparr>)\<rparr>"

definition mac_5GHz :: RegularWifiMac where
  "mac_5GHz = station1\<lparr>m_edca := (\<lambda>ac.
       if ac = AC_VO
       then \<lparr>m_queue = [data_frame 3 20], m_agreements = Map.empty\<rparr>
       else \<lparr>m_queue = [], m_agreements = Map.empty\<rparr>)\<rparr>"

definition tech_of :: "nat \<Rightarrow> WifiPhyStandard \<Rightarrow> WifiTechnology" where
  "tech_of p standard =
     \<lparr>Phy = Some p, Mac = Some p, StationManager = Some p, Standard = standard,
      Operational = True\<rparr>"

definition two_band_device :: MultiBandNetDevice where
  "two_band_device =
     \<lparr>m_list = [WIFI_PHY_STANDARD_80211ad \<mapsto> tech_of 0 WIFI_PHY_STANDARD_80211ad,
                WIFI_PHY_STANDARD_80211n_5GHZ \<mapsto> tech_of 1 WIFI_PHY_STANDARD_80211n_5GHZ],
      m_mac = Some 0, m_phy = Some 0, m_stationManager = Some 0,
      m_standard = WIFI_PHY_STANDARD_80211ad,
      mac_objects = (\<lambda>p. if p = 0 then mac_60GHz else mac_5GHz),
      manager_objects = (\<lambda>p. \<lparr>m_associated = (\<lambda>a. False)\<rparr>),
      m_queueCalls = [],
      transfer_onto_itself = (\<lambda>addr queue. queue)\<rparr>"




text \<open>The same station once its last session identifier was \<open>2 ^ 32 - 2\<close>.\<close>

definition station_last :: RegularWifiMac where
  "station_last = station1\<lparr>m_fstId := 4294967294\<rparr>"

section \<open>Properties of the simulator's event list\<close>




lemma Schedule_fst: "fst (Schedule delay peer band init sim) = Some (m_uid sim)"
  by (simp add: Schedule_def Let_def)





section \<open>The FST state machine\<close>








text \<open>
  Claim C8. An initiator's session is in \<^verbatim>\<open>FST_INITIAL_STATE\<close> while it waits for the
  response. A Setup-Response with a status other than 0 is logged and nothing else: the
  MAC object and the simulator are returned as they were, so the session is still in
  \<^verbatim>\<open>FST_INITIAL_STATE\<close>, no event has been scheduled and no callback has been called.
\<close>

theorem failed_setup_response_ignored:
  assumes "m_qosSupported mac" and "Addr1 mpdu = m_address mac"
    and "Body mpdu = WIFI_MAC_MGT_ACTION (FST_SETUP_RESPONSE token status)" and "status \<noteq> 0"
    and "m_fstSessionMap mac (Addr2 mpdu) = Some ses"
    and "IsInitiator ses" and "CurrentState ses = FST_INITIAL_STATE"
  shows "case Receive mpdu mac sim of
           Inl e \<Rightarrow> False
         | Inr (mac1, sim1) \<Rightarrow>
             map_option CurrentState (m_fstSessionMap mac1 (Addr2 mpdu)) = Some FST_INITIAL_STATE
             \<and> m_events sim1 = m_events sim
             \<and> m_calls mac1 = m_calls mac
             \<and> mac1 = mac \<and> sim1 = sim"
  using assms by (simp add: Receive_def)

text \<open>Example: station 1 has initiated with peer 2 and the peer answers with status 37.\<close>

theorem failed_setup_response_ignored_witness:
  "m_qosSupported (SetupFSTSession 2 station1)
   \<and> Addr1 (frame_from 2 (FST_SETUP_RESPONSE 10 37)) = m_address (SetupFSTSession 2 station1)
   \<and> m_fstSessionMap (SetupFSTSession 2 station1) (Addr2 (frame_from 2 (FST_SETUP_RESPONSE 10 37)))
        = Some session_initial
   \<and> IsInitiator session_initial \<and> CurrentState session_initial = FST_INITIAL_STATE
   \<and> Receive (frame_from 2 (FST_SETUP_RESPONSE 10 37)) (SetupFSTSession 2 station1) sim_start =
        Inr (SetupFSTSession 2 station1, sim_start)"
proof -
  let ?f = "frame_from 2 (FST_SETUP_RESPONSE 10 37)"
  let ?m = "SetupFSTSession 2 station1"
  have h1: "m_qosSupported ?m"
    by (simp add: SetupFSTSession_def Txop_Queue_def station1_def Let_def)
  have h2: "Addr1 ?f = m_address ?m"
    by (simp add: frame_from_def SetupFSTSession_def Txop_Queue_def station1_def Let_def)
  have h3: "Body ?f = WIFI_MAC_MGT_ACTION (FST_SETUP_RESPONSE 10 37)"
    by (simp add: frame_from_def)
  have h4: "(37::16 word) \<noteq> 0" by simp
  have h5: "m_fstSessionMap ?m (Addr2 ?f) = Some session_initial"
    by (simp add: frame_from_def SetupFSTSession_def Txop_Queue_def station1_def Let_def
        session_initial_def)
  have h6: "IsInitiator session_initial" by (simp add: session_initial_def)
  have h7: "CurrentState session_initial = FST_INITIAL_STATE" by (simp add: session_initial_def)
  have "Receive ?f ?m sim_start = Inr (?m, sim_start)"
    using failed_setup_response_ignored[OF h1 h2 h3 h4 h5 h6 h7, of sim_start]
    by (auto split: sum.splits)
  then show ?thesis using h1 h2 h5 h6 h7 by blast
qed

text \<open>
  Claim C1, evaluated where it fails. Station 1 initiates with peer 2 and receives the
  response, so the countdown is pending for time 160. A Teardown from peer 2 then sets the
  session to \<^verbatim>\<open>FST_INITIAL_STATE\<close> and returns the simulator untouched: the event is not
  cancelled, the session's handle still runs, and the next event the simulator runs is the
  band switch for peer 2, at time 160.
\<close>

theorem teardown_leaves_countdown_armed:
  "Receive (frame_from 2 (FST_SETUP_RESPONSE 10 0)) (SetupFSTSession 2 station1) sim_start =
     Inr (station_armed, sim_armed)
   \<and> m_fstSessionMap station_armed 2 = Some session_armed
   \<and> IsRunning (LinkLossCountDownEvent session_armed) sim_armed
   \<and> Receive (frame_from 2 (FST_TEAR_DOWN 1)) station_armed sim_armed =
       Inr (station_armed\<lparr>m_fstSessionMap :=
              [2 \<mapsto> session_armed\<lparr>CurrentState := FST_INITIAL_STATE\<rparr>]\<rparr>, sim_armed)
   \<and> IsRunning (LinkLossCountDownEvent (session_armed\<lparr>CurrentState := FST_INITIAL_STATE\<rparr>))
        sim_armed
   \<and> ProcessOneEvent
        (station_armed\<lparr>m_fstSessionMap :=
           [2 \<mapsto> session_armed\<lparr>CurrentState := FST_INITIAL_STATE\<rparr>]\<rparr>) sim_armed =
       Some (station_armed\<lparr>m_fstSessionMap :=
               [2 \<mapsto> session_armed\<lparr>CurrentState := FST_INITIAL_STATE\<rparr>],
               m_calls := [BandChangedCallback WIFI_PHY_STANDARD_80211n_5GHZ 2 True]\<rparr>,
             \<lparr>Now = 160, m_uid = 1, m_events = []\<rparr>)"
  by (simp add: frame_from_def SetupFSTSession_def Txop_Queue_def station1_def session_armed_def
      sim_start_def sim_armed_def station_armed_def Schedule_def action_frame_def Let_def
      Receive_def session_at_def IsRunning_def ProcessOneEvent_def ChangeBand_def
      timer_event_def)

text \<open>
  Claim C7, evaluated where it fails. Station 1 has no session with peer 2. An
  Ack-Response from peer 2 inserts a session for the peer and sets it to
  \<^verbatim>\<open>FST_TRANSITION_CONFIRMED_STATE\<close>; a Teardown inserts one in \<^verbatim>\<open>FST_INITIAL_STATE\<close>; an
  Ack-Request is answered with an Ack-Response. None of the three is fatal or dropped.
\<close>

theorem unknown_peer_frames_accepted:
  "m_fstSessionMap station1 2 = None
   \<and> Receive (frame_from 2 (FST_ACK_RESPONSE 0 9)) station1 sim_start =
       Inr (station1\<lparr>m_fstSessionMap :=
              [2 \<mapsto> FstSession_zero\<lparr>CurrentState := FST_TRANSITION_CONFIRMED_STATE\<rparr>]\<rparr>,
            sim_start)
   \<and> Receive (frame_from 2 (FST_TEAR_DOWN 9)) station1 sim_start =
       Inr (station1\<lparr>m_fstSessionMap := [2 \<mapsto> FstSession_zero]\<rparr>, sim_start)
   \<and> Receive (frame_from 2 (FST_ACK_REQUEST 0 9)) station1 sim_start =
       Inr (station1\<lparr>m_txop := [action_frame 2 (FST_ACK_RESPONSE 0 9) station1]\<rparr>, sim_start)"
  by (simp add: frame_from_def station1_def Receive_def session_at_def FstSession_zero_def
      SendFstAckResponse_def Txop_Queue_def action_frame_def)

text \<open>
  Claim C9, evaluated where it fails. The session of station 1 with peer 2 has its
  countdown pending. A second local initiation replaces the session by a fresh one with
  no event handle, and so does a Setup-Request received from peer 2; neither cancels the
  pending event, which later runs as the band switch of the session that is gone.
\<close>

theorem session_replaced_while_countdown_pending:
  "m_fstSessionMap station_armed 2 = Some session_armed
   \<and> IsRunning (LinkLossCountDownEvent session_armed) sim_armed
   \<and> m_fstSessionMap (SetupFSTSession 2 station_armed) 2 =
       Some \<lparr>ID = 2, CurrentState = FST_INITIAL_STATE, IsInitiator = True,
             NewBandId = Band_4_9GHz, LLT = 5, LinkLossCountDownEvent = None\<rparr>
   \<and> m_calls (SetupFSTSession 2 station_armed) = []
   \<and> ProcessOneEvent (SetupFSTSession 2 station_armed) sim_armed =
       Some ((SetupFSTSession 2 station_armed)
               \<lparr>m_calls := [BandChangedCallback WIFI_PHY_STANDARD_80211n_5GHZ 2 True]\<rparr>,
             \<lparr>Now = 160, m_uid = 1, m_events = []\<rparr>)
   \<and> Receive (frame_from 2 (FST_SETUP_REQUEST
                \<lparr>SessionTransition =
                   \<lparr>NewBand = \<lparr>Band_ID = Band_2_4GHz, Setup = 1, Operation = 1\<rparr>,
                    OldBand = \<lparr>Band_ID = Band_60GHz, Setup = 1, Operation = 1\<rparr>,
                    FstsID = 8, SessionControl = (SessionType_InfrastructureBSS, False)\<rparr>,
                 Llt = 3, MultiBand = 0, DialogToken = 4\<rparr>)) station_armed sim_armed =
       Inr (station_armed
              \<lparr>m_fstSessionMap :=
                 [2 \<mapsto> \<lparr>ID = 8, CurrentState = FST_INITIAL_STATE, IsInitiator = False,
                         NewBandId = Band_2_4GHz, LLT = 3, LinkLossCountDownEvent = None\<rparr>],
               m_txop := m_txop station_armed
                           @ [action_frame 2 (FST_SETUP_RESPONSE 4 0) station1]\<rparr>,
            sim_armed)"
  by (simp add: frame_from_def SetupFSTSession_def Txop_Queue_def station1_def session_armed_def
      sim_armed_def station_armed_def action_frame_def Let_def SendFstSetupResponse_def
      Receive_def IsRunning_def ProcessOneEvent_def ChangeBand_def timer_event_def)

section \<open>The band switch\<close>

lemma GetWifiMacQueue_Set:
  "GetWifiMacQueue q (SetWifiMacQueue q' items mac) =
     (if q = q' then items else GetWifiMacQueue q mac)"
  by (auto simp: GetWifiMacQueue_def SetWifiMacQueue_def split: QueueId.splits)

lemma queue_of_Transfer:
  "queue_of (TransferPacketsByAddress addr src dst d) r =
     (if src = dst then
        (if r = src then transfer_onto_itself d addr (queue_of d src) else queue_of d r)
      else if r = dst then queue_of d dst @ filter (\<lambda>i. Addr1 i = addr) (queue_of d src)
      else if r = src then filter (\<lambda>i. Addr1 i \<noteq> addr) (queue_of d src)
      else queue_of d r)"
  by (cases r; cases src; cases dst)
     (auto simp: TransferPacketsByAddress_def queue_of_def update_mac_def Let_def
        GetWifiMacQueue_Set)

lemma agreements_of_Transfer:
  "agreements_of (TransferPacketsByAddress addr src dst d) r = agreements_of d r"
  by (cases r; cases src; cases dst)
     (auto simp: TransferPacketsByAddress_def agreements_of_def update_mac_def Let_def
        SetWifiMacQueue_def split: QueueId.splits)

lemma queue_of_Copy:
  "queue_of (CopyBlockAckAgreements addr src dst d) r = queue_of d r"
  by (cases r; cases src; cases dst)
     (auto simp: CopyBlockAckAgreements_def queue_of_def update_mac_def Let_def
        GetWifiMacQueue_def split: option.splits QueueId.splits)

lemma agreements_of_Copy:
  "agreements_of (CopyBlockAckAgreements addr src dst d) r =
     (if r = dst then
        (case agreements_of d src addr of
           None \<Rightarrow> agreements_of d dst
         | Some a \<Rightarrow> (agreements_of d dst)(addr \<mapsto> a))
      else agreements_of d r)"
  by (cases r; cases src; cases dst)
     (auto simp: CopyBlockAckAgreements_def agreements_of_def update_mac_def Let_def
        split: option.splits)

lemma calls_Transfer:
  "m_queueCalls (TransferPacketsByAddress addr src dst d) =
     m_queueCalls d @ [TransferPacketsByAddress_call addr src dst]"
  by (simp add: TransferPacketsByAddress_def update_mac_def Let_def)

lemma calls_Copy:
  "m_queueCalls (CopyBlockAckAgreements addr src dst d) =
     m_queueCalls d @ [CopyBlockAckAgreements_call addr src dst]"
  by (simp add: CopyBlockAckAgreements_def update_mac_def Let_def split: option.splits)

text \<open>What the two queue operations leave alone.\<close>

lemma frame_Transfer:
  "m_list (TransferPacketsByAddress addr src dst d) = m_list d"
  "m_mac (TransferPacketsByAddress addr src dst d) = m_mac d"
  "m_phy (TransferPacketsByAddress addr src dst d) = m_phy d"
  "m_stationManager (TransferPacketsByAddress addr src dst d) = m_stationManager d"
  "m_standard (TransferPacketsByAddress addr src dst d) = m_standard d"
  "manager_objects (TransferPacketsByAddress addr src dst d) = manager_objects d"
  "transfer_onto_itself (TransferPacketsByAddress addr src dst d) = transfer_onto_itself d"
  "m_type (mac_objects (TransferPacketsByAddress addr src dst d) p) = m_type (mac_objects d p)"
  "m_bssid (mac_objects (TransferPacketsByAddress addr src dst d) p) = m_bssid (mac_objects d p)"
  "m_state (mac_objects (TransferPacketsByAddress addr src dst d) p) = m_state (mac_objects d p)"
  "m_fstSessionMap (mac_objects (TransferPacketsByAddress addr src dst d) p) =
     m_fstSessionMap (mac_objects d p)"
  "m_address (mac_objects (TransferPacketsByAddress addr src dst d) p) =
     m_address (mac_objects d p)"
  by (cases "src = dst";
      simp add: TransferPacketsByAddress_def update_mac_def Let_def
        SetWifiMacQueue_def split: QueueId.splits)+

lemma frame_Copy:
  "m_list (CopyBlockAckAgreements addr src dst d) = m_list d"
  "m_mac (CopyBlockAckAgreements addr src dst d) = m_mac d"
  "m_phy (CopyBlockAckAgreements addr src dst d) = m_phy d"
  "m_stationManager (CopyBlockAckAgreements addr src dst d) = m_stationManager d"
  "m_standard (CopyBlockAckAgreements addr src dst d) = m_standard d"
  "manager_objects (CopyBlockAckAgreements addr src dst d) = manager_objects d"
  "transfer_onto_itself (CopyBlockAckAgreements addr src dst d) = transfer_onto_itself d"
  "m_type (mac_objects (CopyBlockAckAgreements addr src dst d) p) = m_type (mac_objects d p)"
  "m_bssid (mac_objects (CopyBlockAckAgreements addr src dst d) p) = m_bssid (mac_objects d p)"
  "m_state (mac_objects (CopyBlockAckAgreements addr src dst d) p) = m_state (mac_objects d p)"
  "m_fstSessionMap (mac_objects (CopyBlockAckAgreements addr src dst d) p) =
     m_fstSessionMap (mac_objects d p)"
  "m_address (mac_objects (CopyBlockAckAgreements addr src dst d) p) =
     m_address (mac_objects d p)"
  by (auto simp: CopyBlockAckAgreements_def update_mac_def Let_def split: option.splits)

text \<open>The nine queue calls together.\<close>

lemma queue_of_migrate:
  "queue_of (migrate_queues addr old new d) (p, q) =
     (if old = new then
        (if p = old then transfer_onto_itself d addr (queue_of d (old, q))
         else queue_of d (p, q))
      else if p = new then
        queue_of d (new, q) @ filter (\<lambda>i. Addr1 i = addr) (queue_of d (old, q))
      else if p = old then filter (\<lambda>i. Addr1 i \<noteq> addr) (queue_of d (old, q))
      else queue_of d (p, q))"
proof (cases q)
  case TxopQueue
  then show ?thesis
    by (simp add: migrate_queues_def queue_of_Transfer queue_of_Copy frame_Transfer)
next
  case (EdcaQueue ac)
  then show ?thesis
    by (cases ac)
       (simp_all add: migrate_queues_def queue_of_Transfer queue_of_Copy frame_Transfer)
qed

lemma agreements_of_migrate:
  "agreements_of (migrate_queues addr old new d) (p, ac) =
     (if p = new then
        (case agreements_of d (old, ac) addr of
           None \<Rightarrow> agreements_of d (new, ac)
         | Some a \<Rightarrow> (agreements_of d (new, ac))(addr \<mapsto> a))
      else agreements_of d (p, ac))"
  by (cases ac; cases "agreements_of d (old, ac) addr")
     (simp_all add: migrate_queues_def agreements_of_Transfer agreements_of_Copy)

lemma calls_migrate:
  "m_queueCalls (migrate_queues addr old new d) =
     m_queueCalls d @
       [TransferPacketsByAddress_call addr (old, TxopQueue) (new, TxopQueue),
        TransferPacketsByAddress_call addr (old, EdcaQueue AC_VO) (new, EdcaQueue AC_VO),
        TransferPacketsByAddress_call addr (old, EdcaQueue AC_VI) (new, EdcaQueue AC_VI),
        TransferPacketsByAddress_call addr (old, EdcaQueue AC_BE) (new, EdcaQueue AC_BE),
        TransferPacketsByAddress_call addr (old, EdcaQueue AC_BK) (new, EdcaQueue AC_BK),
        CopyBlockAckAgreements_call addr (old, AC_VO) (new, AC_VO),
        CopyBlockAckAgreements_call addr (old, AC_VI) (new, AC_VI),
        CopyBlockAckAgreements_call addr (old, AC_BE) (new, AC_BE),
        CopyBlockAckAgreements_call addr (old, AC_BK) (new, AC_BK)]"
  by (simp add: migrate_queues_def calls_Transfer calls_Copy)

lemma frame_migrate:
  "m_list (migrate_queues addr old new d) = m_list d"
  "m_mac (migrate_queues addr old new d) = m_mac d"
  "m_phy (migrate_queues addr old new d) = m_phy d"
  "m_stationManager (migrate_queues addr old new d) = m_stationManager d"
  "m_standard (migrate_queues addr old new d) = m_standard d"
  "manager_objects (migrate_queues addr old new d) = manager_objects d"
  "transfer_onto_itself (migrate_queues addr old new d) = transfer_onto_itself d"
  "m_type (mac_objects (migrate_queues addr old new d) p) = m_type (mac_objects d p)"
  "m_bssid (mac_objects (migrate_queues addr old new d) p) = m_bssid (mac_objects d p)"
  "m_state (mac_objects (migrate_queues addr old new d) p) = m_state (mac_objects d p)"
  "m_fstSessionMap (mac_objects (migrate_queues addr old new d) p) =
     m_fstSessionMap (mac_objects d p)"
  "m_address (mac_objects (migrate_queues addr old new d) p) = m_address (mac_objects d p)"
  by (simp_all add: migrate_queues_def frame_Transfer frame_Copy)

lemma edca_Notify:
  "m_edca (NotifyBandChanged standard address isInitiator mac) = m_edca mac"
  by (simp add: NotifyBandChanged_def SendFstAckRequest_def Txop_Queue_def Let_def)



text \<open>
  The result of \<^verbatim>\<open>BandChanged\<close> when a technology is active and the target standard is
  registered with a MAC and a station manager.
\<close>

lemma BandChanged_result:
  assumes "m_mac d = Some old" and "m_list d standard = Some tech"
    and "Mac tech = Some new" and "StationManager tech = Some sm"
  shows "BandChanged standard address isInitiator d =
     (let d0 = d\<lparr>m_mac := Some new, m_phy := Phy tech, m_stationManager := Some sm,
                  m_standard := standard\<rparr>;
          d9 = migrate_queues address old new d0;
          ty = m_type (mac_objects d new);
          d10 =
            (if ty = DMG_STA \<or> ty = STA then
               update_mac new (\<lambda>mac. SetState (m_state (mac_objects d old))
                                        (SetBssid (m_bssid (mac_objects d old)) mac)) d9
             else if ty = AP \<or> ty = DMG_AP then
               d9\<lparr>manager_objects := (manager_objects d)
                     (sm := RecordGotAssocTxOk address (manager_objects d sm))\<rparr>
             else d9)
      in Inr (update_mac new (NotifyBandChanged standard address isInitiator) d10))"
proof -
  have sw: "SwitchTechnology standard d =
      d\<lparr>m_mac := Some new, m_phy := Phy tech, m_stationManager := Some sm,
        m_standard := standard\<rparr>"
    using assms by (simp add: SwitchTechnology_def Let_def map_upd_triv)
  show ?thesis
    unfolding BandChanged_def sw Let_def migrate_queues_def[symmetric]
    using assms(1) by (simp add: frame_migrate)
qed

text \<open>
  The band switch as seen through the four access-category queues, the agreements and
  the record of queue calls.
\<close>

lemma BandChanged_observed:
  assumes "m_mac d = Some old" and "m_list d standard = Some tech"
    and "Mac tech = Some new" and "StationManager tech = Some sm"
  shows "\<exists>d'. BandChanged standard address isInitiator d = Inr d'
    \<and> (\<forall>p ac. queue_of d' (p, EdcaQueue ac) =
          (if old = new then
             (if p = old
              then transfer_onto_itself d address (queue_of d (old, EdcaQueue ac))
              else queue_of d (p, EdcaQueue ac))
           else if p = new then
             queue_of d (new, EdcaQueue ac)
             @ filter (\<lambda>i. Addr1 i = address) (queue_of d (old, EdcaQueue ac))
           else if p = old then filter (\<lambda>i. Addr1 i \<noteq> address) (queue_of d (old, EdcaQueue ac))
           else queue_of d (p, EdcaQueue ac)))
    \<and> (\<forall>p ac. agreements_of d' (p, ac) =
          (if p = new then
             (case agreements_of d (old, ac) address of
                None \<Rightarrow> agreements_of d (new, ac)
              | Some a \<Rightarrow> (agreements_of d (new, ac))(address \<mapsto> a))
           else agreements_of d (p, ac)))
    \<and> m_queueCalls d' = m_queueCalls d @
       [TransferPacketsByAddress_call address (old, TxopQueue) (new, TxopQueue),
        TransferPacketsByAddress_call address (old, EdcaQueue AC_VO) (new, EdcaQueue AC_VO),
        TransferPacketsByAddress_call address (old, EdcaQueue AC_VI) (new, EdcaQueue AC_VI),
        TransferPacketsByAddress_call address (old, EdcaQueue AC_BE) (new, EdcaQueue AC_BE),
        TransferPacketsByAddress_call address (old, EdcaQueue AC_BK) (new, EdcaQueue AC_BK),
        CopyBlockAckAgreements_call address (old, AC_VO) (new, AC_VO),
        CopyBlockAckAgreements_call address (old, AC_VI) (new, AC_VI),
        CopyBlockAckAgreements_call address (old, AC_BE) (new, AC_BE),
        CopyBlockAckAgreements_call address (old, AC_BK) (new, AC_BK)]"
proof -
  let ?d0 = "d\<lparr>m_mac := Some new, m_phy := Phy tech, m_stationManager := Some sm,
                 m_standard := standard\<rparr>"
  have q0: "queue_of ?d0 r = queue_of d r" for r by (simp add: queue_of_def)
  have a0: "agreements_of ?d0 r = agreements_of d r" for r by (simp add: agreements_of_def)
  have fin_q: "queue_of (update_mac new (NotifyBandChanged standard address isInitiator) x)
                 (p, EdcaQueue ac) = queue_of x (p, EdcaQueue ac)" for x p ac
    by (simp add: queue_of_def update_mac_def GetWifiMacQueue_def edca_Notify)
  have fin_a: "agreements_of (update_mac new (NotifyBandChanged standard address isInitiator) x) r
                 = agreements_of x r" for x r
    by (simp add: agreements_of_def update_mac_def edca_Notify)
  have fin_c: "m_queueCalls (update_mac new f x) = m_queueCalls x" for f x
    by (simp add: update_mac_def)
  have st_q: "queue_of (update_mac new (\<lambda>mac. SetState s (SetBssid b mac)) x) r = queue_of x r"
    for s b x r
    by (simp add: queue_of_def update_mac_def GetWifiMacQueue_def SetState_def SetBssid_def
        split: QueueId.splits)
  have st_a: "agreements_of (update_mac new (\<lambda>mac. SetState s (SetBssid b mac)) x) r
      = agreements_of x r" for s b x r
    by (simp add: agreements_of_def update_mac_def SetState_def SetBssid_def)
  have ap_q: "queue_of (x\<lparr>manager_objects := mo\<rparr>) r = queue_of x r" for x mo r
    by (simp add: queue_of_def)
  have ap_a: "agreements_of (x\<lparr>manager_objects := mo\<rparr>) r = agreements_of x r" for x mo r
    by (simp add: agreements_of_def)
  show ?thesis
    unfolding BandChanged_result[OF assms] Let_def
    by (simp add: fin_q fin_a fin_c st_q st_a ap_q ap_a queue_of_migrate agreements_of_migrate
        calls_migrate q0 a0 del: split_paired_All cong: option.case_cong)
qed





text \<open>
  Claim C5. If the old MAC's queue of an access category holds a block-ack agreement for
  peer \<open>P\<close> with starting sequence \<open>S\<close>, buffer size \<open>B\<close> and timeout \<open>T\<close>, then after the
  band switch for \<open>P\<close> the new MAC's queue of that category holds an agreement for \<open>P\<close>
  with the same parameters, and the old queue still holds its own.
\<close>

theorem band_switch_copies_agreement:
  assumes "m_mac d = Some old" and "m_list d standard = Some tech"
    and "Mac tech = Some new" and "StationManager tech = Some sm"
    and "agreements_of d (old, ac) P =
           Some \<lparr>m_startingSeq = S, m_bufferSize = B, m_timeout = T, m_immediateBlockAck = imm\<rparr>"
  shows "\<exists>d'. BandChanged standard P isInitiator d = Inr d'
    \<and> agreements_of d' (new, ac) P =
        Some \<lparr>m_startingSeq = S, m_bufferSize = B, m_timeout = T, m_immediateBlockAck = imm\<rparr>
    \<and> agreements_of d' (old, ac) P =
        Some \<lparr>m_startingSeq = S, m_bufferSize = B, m_timeout = T, m_immediateBlockAck = imm\<rparr>"
proof -
  let ?a = "\<lparr>m_startingSeq = S, m_bufferSize = B, m_timeout = T, m_immediateBlockAck = imm\<rparr>"
  from BandChanged_observed[OF assms(1-4), of P isInitiator]
  obtain d' where res: "BandChanged standard P isInitiator d = Inr d'"
    and a: "\<And>p ac. agreements_of d' (p, ac) =
          (if p = new then
             (case agreements_of d (old, ac) P of
                None \<Rightarrow> agreements_of d (new, ac)
              | Some a \<Rightarrow> (agreements_of d (new, ac))(P \<mapsto> a))
           else agreements_of d (p, ac))"
    by blast
  have "agreements_of d' (new, ac) P = Some ?a"
    using assms(5) by (simp add: a)
  moreover have "agreements_of d' (old, ac) P = Some ?a"
    using assms(5) by (auto simp: a)
  ultimately show ?thesis using res by blast
qed

text \<open>
  Example: the voice queue of the 60 GHz MAC has an agreement with peer 2, that of the
  5 GHz MAC has none; after the switch both have it.
\<close>

theorem band_switch_copies_agreement_witness:
  "m_mac two_band_device = Some 0
   \<and> m_list two_band_device WIFI_PHY_STANDARD_80211n_5GHZ
       = Some (tech_of 1 WIFI_PHY_STANDARD_80211n_5GHZ)
   \<and> Mac (tech_of 1 WIFI_PHY_STANDARD_80211n_5GHZ) = Some 1
   \<and> StationManager (tech_of 1 WIFI_PHY_STANDARD_80211n_5GHZ) = Some 1
   \<and> agreements_of two_band_device (0, AC_VO) 2 =
       Some \<lparr>m_startingSeq = 100, m_bufferSize = 64, m_timeout = 0, m_immediateBlockAck = True\<rparr>
   \<and> agreements_of two_band_device (1, AC_VO) 2 = None
   \<and> (\<exists>d'. BandChanged WIFI_PHY_STANDARD_80211n_5GHZ 2 True two_band_device = Inr d'
         \<and> agreements_of d' (1, AC_VO) 2 =
             Some \<lparr>m_startingSeq = 100, m_bufferSize = 64, m_timeout = 0,
                   m_immediateBlockAck = True\<rparr>
         \<and> agreements_of d' (0, AC_VO) 2 =
             Some \<lparr>m_startingSeq = 100, m_bufferSize = 64, m_timeout = 0,
                   m_immediateBlockAck = True\<rparr>)"
proof -
  have h1: "m_mac two_band_device = Some 0" by (simp add: two_band_device_def)
  have h2: "m_list two_band_device WIFI_PHY_STANDARD_80211n_5GHZ
      = Some (tech_of 1 WIFI_PHY_STANDARD_80211n_5GHZ)"
    by (simp add: two_band_device_def)
  have h3: "Mac (tech_of 1 WIFI_PHY_STANDARD_80211n_5GHZ) = Some 1" by (simp add: tech_of_def)
  have h4: "StationManager (tech_of 1 WIFI_PHY_STANDARD_80211n_5GHZ) = Some 1"
    by (simp add: tech_of_def)
  have h5: "agreements_of two_band_device (0, AC_VO) 2 =
       Some \<lparr>m_startingSeq = 100, m_bufferSize = 64, m_timeout = 0, m_immediateBlockAck = True\<rparr>"
    by (simp add: agreements_of_def two_band_device_def mac_60GHz_def agreement2_def)
  have h6: "agreements_of two_band_device (1, AC_VO) 2 = None"
    by (simp add: agreements_of_def two_band_device_def mac_5GHz_def)
  show ?thesis
    using band_switch_copies_agreement[OF h1 h2 h3 h4 h5, of True] h1 h2 h3 h4 h5 h6 by blast
qed




section \<open>Local initiation\<close>

text \<open>
  Claim C10 fails at the end of the identifier's range: the counter \<^verbatim>\<open>m_fstId\<close> is a
  32-bit one. On the station whose last identifier was \<open>2 ^ 32 - 2\<close>, the session
  initiated with peer 2 has the identifier \<open>2 ^ 32 - 1\<close> and the next one, initiated with
  peer 3, has the identifier 0, not \<open>2 ^ 32\<close>.
\<close>

theorem session_identifier_wraps:
  "map_option ID (m_fstSessionMap (SetupFSTSession 2 station_last) 2) = Some 4294967295
   \<and> unat (4294967295 :: 32 word) + 1 = 4294967296
   \<and> map_option ID
        (m_fstSessionMap (SetupFSTSession 3 (SetupFSTSession 2 station_last)) 3) = Some 0"
  by (simp add: SetupFSTSession_def Txop_Queue_def action_frame_def Let_def station_last_def
      station1_def)

text \<open>
  Claim C10 as amended. \<^verbatim>\<open>SetupFSTSession\<close> reads nothing of the active technology: for
  every MAC object it increments \<^verbatim>\<open>m_fstId\<close> and uses the new value as the session
  identifier, stores for the peer a session in \<^verbatim>\<open>FST_INITIAL_STATE\<close> with
  \<^verbatim>\<open>IsInitiator\<close> set, new band 4.9 GHz and the MAC's LLT, and queues a Setup-Request whose
  session-transition element names 4.9 GHz as the new band and 60 GHz as the old one. The
  identifier of the next local initiation, whatever its peer, is the 32-bit successor of
  the previous one: one greater modulo \<open>2 ^ 32\<close>, hence exactly one greater unless the
  previous one was \<open>2 ^ 32 - 1\<close>. Through the device,
  \<^verbatim>\<open>EstablishFastSessionTransferSession\<close> does this on the active MAC whichever standard
  is active, and leaves the standard as it is.
\<close>

theorem SetupFSTSession_fixed_band_pair:
  "m_fstId (SetupFSTSession staAddress mac) = m_fstId mac + 1
   \<and> m_fstSessionMap (SetupFSTSession staAddress mac) =
       (m_fstSessionMap mac)(staAddress \<mapsto>
          \<lparr>ID = m_fstId mac + 1, CurrentState = FST_INITIAL_STATE, IsInitiator = True,
           NewBandId = Band_4_9GHz, LLT = m_llt mac, LinkLossCountDownEvent = None\<rparr>)
   \<and> m_txop (SetupFSTSession staAddress mac) =
       m_txop mac @
         [\<lparr>Addr1 = staAddress, Addr2 = m_address mac, Addr3 = m_address mac,
           Body = WIFI_MAC_MGT_ACTION (FST_SETUP_REQUEST
             \<lparr>SessionTransition =
                \<lparr>NewBand = \<lparr>Band_ID = Band_4_9GHz, Setup = 1, Operation = 1\<rparr>,
                 OldBand = \<lparr>Band_ID = Band_60GHz, Setup = 1, Operation = 1\<rparr>,
                 FstsID = m_fstId mac + 1,
                 SessionControl = (SessionType_InfrastructureBSS, False)\<rparr>,
              Llt = m_llt mac, MultiBand = m_multiBand mac, DialogToken = 10\<rparr>)\<rparr>]
   \<and> map_option ID (m_fstSessionMap (SetupFSTSession nextAddress (SetupFSTSession staAddress mac))
                       nextAddress) =
       Some (ID (session_at (m_fstSessionMap (SetupFSTSession staAddress mac)) staAddress) + 1)
   \<and> unat (m_fstId mac + 1) = (unat (m_fstId mac) + 1) mod 2 ^ 32
   \<and> (unat (m_fstId mac) < 2 ^ 32 - 1 \<longrightarrow> unat (m_fstId mac + 1) = unat (m_fstId mac) + 1)
   \<and> (m_mac d = Some p \<longrightarrow>
        (\<exists>d'. EstablishFastSessionTransferSession staAddress d = Inr d'
           \<and> map_option NewBandId (m_fstSessionMap (mac_objects d' p) staAddress) = Some Band_4_9GHz
           \<and> map_option IsInitiator (m_fstSessionMap (mac_objects d' p) staAddress) = Some True
           \<and> map_option CurrentState (m_fstSessionMap (mac_objects d' p) staAddress)
               = Some FST_INITIAL_STATE
           \<and> m_standard d' = m_standard d))"
proof -
  have w: "unat (m_fstId mac + 1) = (unat (m_fstId mac) + 1) mod 2 ^ 32"
    by (simp add: unat_word_ariths)
  have e: "unat (m_fstId mac + 1) = unat (m_fstId mac) + 1" if "unat (m_fstId mac) < 2 ^ 32 - 1"
    using that by (simp add: w)
  show ?thesis
    using w e
    by (simp add: SetupFSTSession_def Txop_Queue_def action_frame_def Let_def session_at_def
        EstablishFastSessionTransferSession_def update_mac_def)
qed

text \<open>
  Example: with the 5 GHz technology active, the session initiated with peer 2 still
  names 4.9 GHz as its new band; the first two identifiers of station 1 are 1 and 2.
\<close>

theorem SetupFSTSession_fixed_band_pair_witness:
  "m_mac (SwitchTechnology WIFI_PHY_STANDARD_80211n_5GHZ two_band_device) = Some 1
   \<and> m_standard (SwitchTechnology WIFI_PHY_STANDARD_80211n_5GHZ two_band_device)
       = WIFI_PHY_STANDARD_80211n_5GHZ
   \<and> unat (m_fstId station1) < 2 ^ 32 - 1
   \<and> unat (m_fstId station1 + 1) = 1
   \<and> map_option ID (m_fstSessionMap (SetupFSTSession 2 station1) 2) = Some 1
   \<and> map_option ID (m_fstSessionMap (SetupFSTSession 3 (SetupFSTSession 2 station1)) 3) = Some 2
   \<and> (\<exists>d'. EstablishFastSessionTransferSession 2
              (SwitchTechnology WIFI_PHY_STANDARD_80211n_5GHZ two_band_device) = Inr d'
         \<and> map_option NewBandId (m_fstSessionMap (mac_objects d' 1) 2) = Some Band_4_9GHz
         \<and> m_standard d' = WIFI_PHY_STANDARD_80211n_5GHZ)"
proof -
  let ?d = "SwitchTechnology WIFI_PHY_STANDARD_80211n_5GHZ two_band_device"
  have h: "m_mac ?d = Some 1"
    by (simp add: SwitchTechnology_def two_band_device_def tech_of_def Let_def)
  have s: "m_standard ?d = WIFI_PHY_STANDARD_80211n_5GHZ"
    by (simp add: SwitchTechnology_def Let_def)
  have i: "m_fstId station1 = 0" by (simp add: station1_def)
  note T = SetupFSTSession_fixed_band_pair[of 2 station1 3 ?d 1]
  have m: "m_fstSessionMap (SetupFSTSession 2 station1) =
       (m_fstSessionMap station1)(2 \<mapsto>
          \<lparr>ID = m_fstId station1 + 1, CurrentState = FST_INITIAL_STATE, IsInitiator = True,
           NewBandId = Band_4_9GHz, LLT = m_llt station1, LinkLossCountDownEvent = None\<rparr>)"
    using T by blast
  have n: "map_option ID (m_fstSessionMap (SetupFSTSession 3 (SetupFSTSession 2 station1)) 3) =
       Some (ID (session_at (m_fstSessionMap (SetupFSTSession 2 station1)) 2) + 1)"
    using T by blast
  have u: "unat (m_fstId station1) < 2 ^ 32 - 1" "unat (m_fstId station1 + 1) = 1"
    by (simp_all add: i)
  have id1: "map_option ID (m_fstSessionMap (SetupFSTSession 2 station1) 2) = Some 1"
    by (simp add: m i)
  have id2: "map_option ID (m_fstSessionMap (SetupFSTSession 3 (SetupFSTSession 2 station1)) 3)
      = Some 2"
    by (simp add: n m i session_at_def)
  have e: "\<exists>d'. EstablishFastSessionTransferSession 2 ?d = Inr d'
         \<and> map_option NewBandId (m_fstSessionMap (mac_objects d' 1) 2) = Some Band_4_9GHz
         \<and> m_standard d' = WIFI_PHY_STANDARD_80211n_5GHZ"
    using T h s by auto
  show ?thesis using h s u id1 id2 e by blast
qed

end
